theory Spec2Isabelle
  imports Main "HOL-Library.Word" "HOL-Library.Monad_Syntax"
begin

unbundle bit_operations_syntax

section \<open>The generation lock of \<^verbatim>\<open>faster-c.cc\<close>\<close>

text \<open>
  \<^verbatim>\<open>GenLock\<close> is a union of a 64-bit word \<^verbatim>\<open>control_\<close> with the bit fields
  \<^verbatim>\<open>gen_number : 62\<close>, \<^verbatim>\<open>locked : 1\<close>, \<^verbatim>\<open>replaced : 1\<close>, declared in this order.
  The fields are laid out from the least significant bit, which is the layout the
  constants of \<^verbatim>\<open>unlock\<close> (\<^verbatim>\<open>1 << 62\<close> for the locked bit, \<^verbatim>\<open>1 << 63\<close> for the
  replaced bit) rely on. A lock state is modelled by its control word.
\<close>

type_synonym u64 = "64 word"
type_synonym byte = "8 word"

definition gen_number :: "u64 \<Rightarrow> u64" where
  "gen_number control = take_bit 62 control"

definition locked :: "u64 \<Rightarrow> bool" where
  "locked control = bit control 62"

definition replaced :: "u64 \<Rightarrow> bool" where
  "replaced control = bit control 63"

text \<open>Assignments to the one-bit fields: \<^verbatim>\<open>g.locked = b\<close> and \<^verbatim>\<open>g.replaced = b\<close>.\<close>

definition set_locked :: "bool \<Rightarrow> u64 \<Rightarrow> u64" where
  "set_locked b control = (if b then set_bit 62 control else unset_bit 62 control)"

definition set_replaced :: "bool \<Rightarrow> u64 \<Rightarrow> u64" where
  "set_replaced b control = (if b then set_bit 63 control else unset_bit 63 control)"

text \<open>
  \<^verbatim>\<open>std::atomic<uint64_t>::compare_exchange_strong(expected, desired)\<close> on an atomic
  holding \<open>control\<close>: the result is the success flag, the new content of the atomic and
  the new content of \<open>expected\<close> (which receives the current value on failure).
\<close>

definition compare_exchange_strong :: "u64 \<Rightarrow> u64 \<Rightarrow> u64 \<Rightarrow> bool \<times> u64 \<times> u64" where
  "compare_exchange_strong control expected desired =
     (if control = expected then (True, desired, expected) else (False, control, control))"

text \<open>
  \<^verbatim>\<open>AtomicGenLock::try_lock(bool& replaced)\<close>, run without interference between its
  load and its compare-and-swap. The result is the returned flag, the value left in the
  out-parameter \<^verbatim>\<open>replaced\<close>, and the control word afterwards.
\<close>

definition try_lock :: "u64 \<Rightarrow> bool \<times> bool \<times> u64" where
  "try_lock control =
     (let expected = set_replaced False (set_locked False control);
          desired = set_locked True expected
      in case compare_exchange_strong control expected desired of
           (ok, control', expected') \<Rightarrow>
             if ok then (True, False, control')
             else if replaced expected' then (False, True, control')
             else (False, False, control'))"

text \<open>
  \<^verbatim>\<open>AtomicGenLock::unlock(bool replaced)\<close>: the branch taken when the argument is true
  does \<^verbatim>\<open>fetch_sub((1 << 62) - 1)\<close>, the other branch does
  \<^verbatim>\<open>fetch_add((1 << 63) - (1 << 62) + 1)\<close>; both wrap modulo \<open>2 ^ 64\<close>.
\<close>

definition unlock :: "bool \<Rightarrow> u64 \<Rightarrow> u64" where
  "unlock was_replaced control =
     (if was_replaced then control - (push_bit 62 1 - 1)
      else control + (push_bit 63 1 - push_bit 62 1 + 1))"

section \<open>Record slots and memory\<close>

text \<open>
  Memory is byte addressed; a pointer is an address and \<^verbatim>\<open>NULL\<close> is address 0.
  \<^verbatim>\<open>std::memcpy(dst, src, n)\<close> copies \<open>n\<close> bytes (the source bytes are read from the
  memory as it is before the call).
\<close>

type_synonym memory = "nat \<Rightarrow> byte"

definition NULL :: nat where
  "NULL = 0"

definition memcpy :: "memory \<Rightarrow> nat \<Rightarrow> nat \<Rightarrow> nat \<Rightarrow> memory" where
  "memcpy mem dst src n =
     (\<lambda>a. if dst \<le> a \<and> a < dst + n then mem (src + (a - dst)) else mem a)"

text \<open>The \<open>n\<close> bytes found at address \<open>p\<close>, and the converse: bytes placed at \<open>p\<close>.\<close>

definition load_bytes :: "memory \<Rightarrow> nat \<Rightarrow> nat \<Rightarrow> byte list" where
  "load_bytes mem p n = map mem [p ..< p + n]"

definition store_bytes :: "memory \<Rightarrow> nat \<Rightarrow> byte list \<Rightarrow> memory" where
  "store_bytes mem p bs =
     (\<lambda>a. if p \<le> a \<and> a < p + length bs then bs ! (a - p) else mem a)"

text \<open>
  \<^verbatim>\<open>class Value\<close>: the header fields \<^verbatim>\<open>gen_lock_\<close>, \<^verbatim>\<open>size_\<close>, \<^verbatim>\<open>length_\<close> (three
  64-bit words, so \<^verbatim>\<open>sizeof(Value)\<close> is 24), located at address \<open>this\<close>. The payload
  buffer starts right behind the header: \<^verbatim>\<open>buffer()\<close> is \<^verbatim>\<open>this + 1\<close>. A member
  \<^verbatim>\<open>name_\<close> of a class is written with the class in front (\<open>value_size\<close> for
  \<^verbatim>\<open>Value::size_\<close>, \<open>upsert_length\<close> for \<^verbatim>\<open>UpsertContext::length_\<close>).
\<close>

record Value =
  this :: nat
  value_gen_lock :: u64
  value_size :: u64
  value_length :: u64

definition sizeof_Value :: u64 where
  "sizeof_Value = 24"

definition buffer :: "Value \<Rightarrow> nat" where
  "buffer v = this v + unat sizeof_Value"

text \<open>
  \<^verbatim>\<open>size_\<close> counts the header and the buffer (\<^verbatim>\<open>Put\<close> sets it to
  \<^verbatim>\<open>sizeof(Value) + length_\<close>), so the capacity of the specification, the number of
  bytes allocated for the buffer, is \<^verbatim>\<open>size_ - sizeof(Value)\<close>. It is negative for a
  header whose \<^verbatim>\<open>size_\<close> does not even cover the header itself.
\<close>

definition capacity :: "Value \<Rightarrow> int" where
  "capacity v = uint (value_size v) - uint sizeof_Value"

datatype Status = Ok | NotFound

section \<open>Consistent read\<close>

text \<open>
  \<^verbatim>\<open>ReadContext::GetAtomic\<close>, run with no concurrent writer: each round of the
  \<^verbatim>\<open>do ... while\<close> loop loads the lock, captures buffer pointer and length, and loads the
  lock again. The result is what the read callback \<^verbatim>\<open>cb_\<close> is called with.
\<close>

partial_function (option) GetAtomic :: "Value \<Rightarrow> (nat \<times> u64 \<times> Status) option" where
  "GetAtomic v =
     (let before = value_gen_lock v;
          buf = buffer v;
          len = value_length v;
          after = value_gen_lock v
      in if gen_number before \<noteq> gen_number after then GetAtomic v
         else Some (buf, len, Ok))"

text \<open>The bytes a read callback finds behind the pointer and length it is handed.\<close>

definition delivered :: "memory \<Rightarrow> nat \<times> u64 \<times> Status \<Rightarrow> byte list \<times> u64 \<times> Status" where
  "delivered mem r = (case r of (buf, len, st) \<Rightarrow> (load_bytes mem buf (unat len), len, st))"

section \<open>In-place update\<close>

text \<open>
  The acquisition loop shared by \<^verbatim>\<open>PutAtomic\<close> and \<^verbatim>\<open>RmwAtomic\<close>:
  \<^verbatim>\<open>while(!try_lock(replaced) && !replaced) yield();\<close>. It returns the final value of
  \<^verbatim>\<open>replaced\<close> and the control word. With no other thread to release the lock, the
  loop does not end on a word that is locked and not replaced.
\<close>

partial_function (option) lock_loop :: "u64 \<Rightarrow> (bool \<times> u64) option" where
  "lock_loop control =
     (case try_lock control of
        (ok, was_replaced, control') \<Rightarrow>
          if \<not> ok \<and> \<not> was_replaced then lock_loop control'
          else Some (was_replaced, control'))"

record UpsertContext =
  upsert_key :: u64
  upsert_input :: nat
  upsert_length :: u64

text \<open>\<^verbatim>\<open>UpsertContext::PutAtomic\<close>: the returned flag, the header and the memory afterwards.\<close>

definition PutAtomic :: "UpsertContext \<Rightarrow> Value \<Rightarrow> memory \<Rightarrow> (bool \<times> Value \<times> memory) option" where
  "PutAtomic ctx v mem =
     (case lock_loop (value_gen_lock v) of
        None \<Rightarrow> None
      | Some (was_replaced, control) \<Rightarrow>
          if was_replaced then Some (False, v\<lparr>value_gen_lock := control\<rparr>, mem)
          else if value_size v < sizeof_Value + upsert_length ctx
          then Some (False, v\<lparr>value_gen_lock := unlock True control\<rparr>, mem)
          else Some (True,
                 v\<lparr>value_length := upsert_length ctx, value_gen_lock := unlock False control\<rparr>,
                 memcpy mem (buffer v) (upsert_input ctx) (unat (upsert_length ctx))))"

section \<open>Read-modify-write in place\<close>

text \<open>
  An \<^verbatim>\<open>rmw_callback\<close> is called with the old payload (pointer, length), the
  modification (pointer, length) and an output pointer, and returns a length. It reads
  memory through its pointers and writes only through the output pointer: the model of a
  callback returns, with the length, the bytes it leaves at the output pointer, and these
  are dropped when the output pointer is \<^verbatim>\<open>NULL\<close>.
\<close>

type_synonym rmw_args = "nat \<times> u64 \<times> nat \<times> u64 \<times> nat"
type_synonym rmw_callback = "rmw_args \<Rightarrow> memory \<Rightarrow> u64 \<times> byte list"

definition invoke :: "rmw_callback \<Rightarrow> rmw_args \<Rightarrow> memory \<Rightarrow> u64 \<times> memory" where
  "invoke cb args mem =
     (case args of (old_value, old_length, modification, modification_length, dst) \<Rightarrow>
        case cb args mem of (n, out) \<Rightarrow>
          (n, if dst = NULL then mem else store_bytes mem dst out))"

record RmwContext =
  rmw_key :: u64
  rmw_modification :: nat
  rmw_length :: u64
  rmw_cb :: rmw_callback

text \<open>
  \<^verbatim>\<open>RmwContext::RmwAtomic\<close>: the returned flag, the header and the memory afterwards,
  and the calls of \<^verbatim>\<open>cb_\<close> it made, in order, each with its five arguments.
\<close>

definition RmwAtomic :: "RmwContext \<Rightarrow> Value \<Rightarrow> memory \<Rightarrow> (bool \<times> Value \<times> memory \<times> rmw_args list) option" where
  "RmwAtomic ctx v mem =
     (case lock_loop (value_gen_lock v) of
        None \<Rightarrow> None
      | Some (was_replaced, control) \<Rightarrow>
          if was_replaced then Some (False, v\<lparr>value_gen_lock := control\<rparr>, mem, [])
          else
            let dry = (buffer v, value_length v, rmw_modification ctx, rmw_length ctx, NULL);
                (new_length, mem1) = invoke (rmw_cb ctx) dry mem
            in if value_size v < sizeof_Value + new_length
               then Some (False, v\<lparr>value_gen_lock := unlock True control\<rparr>, mem1, [dry])
               else
                 let real = (buffer v, value_length v, rmw_modification ctx, rmw_length ctx, buffer v);
                     (ignored, mem2) = invoke (rmw_cb ctx) real mem1
                 in Some (True,
                      v\<lparr>value_length := new_length, value_gen_lock := unlock False control\<rparr>,
                      mem2, [dry, real]))"

section \<open>Sequential runs\<close>

text \<open>An in-place update followed immediately by a consistent read of the same slot.\<close>

definition PutAtomic_then_GetAtomic ::
  "UpsertContext \<Rightarrow> Value \<Rightarrow> memory \<Rightarrow> (bool \<times> byte list \<times> u64 \<times> Status) option" where
  "PutAtomic_then_GetAtomic ctx v mem =
     do {
       (ok, v', mem') \<leftarrow> PutAtomic ctx v mem;
       r \<leftarrow> GetAtomic v';
       Some (ok, delivered mem' r)
     }"

text \<open>
  A sequential client of one slot. It may call \<^verbatim>\<open>try_lock\<close>, \<^verbatim>\<open>PutAtomic\<close> and
  \<^verbatim>\<open>RmwAtomic\<close> at any time, and \<^verbatim>\<open>unlock\<close> only while it holds the lock through a
  \<^verbatim>\<open>try_lock\<close> of its own that succeeded, which is how \<^verbatim>\<open>PutAtomic\<close> and
  \<^verbatim>\<open>RmwAtomic\<close>, the only callers of \<^verbatim>\<open>unlock\<close> in the source, use it. The state is
  the flag "this client holds the lock", the header and the memory; a run that calls
  \<^verbatim>\<open>unlock\<close> without holding the lock is not a run of the protocol (\<open>None\<close>).
\<close>

datatype core_op = TryLock | Unlock bool | Put UpsertContext | Rmw RmwContext

fun exec_op :: "core_op \<Rightarrow> bool \<times> Value \<times> memory \<Rightarrow> (bool \<times> Value \<times> memory) option" where
  "exec_op TryLock (held, v, mem) =
     (case try_lock (value_gen_lock v) of
        (ok, was_replaced, control) \<Rightarrow> Some (held \<or> ok, v\<lparr>value_gen_lock := control\<rparr>, mem))"
| "exec_op (Unlock b) (held, v, mem) =
     (if held then Some (False, v\<lparr>value_gen_lock := unlock b (value_gen_lock v)\<rparr>, mem)
      else None)"
| "exec_op (Put ctx) (held, v, mem) =
     (case PutAtomic ctx v mem of
        None \<Rightarrow> None
      | Some (ok, v', mem') \<Rightarrow> Some (held, v', mem'))"
| "exec_op (Rmw ctx) (held, v, mem) =
     (case RmwAtomic ctx v mem of
        None \<Rightarrow> None
      | Some (ok, v', mem', calls) \<Rightarrow> Some (held, v', mem'))"

fun exec_ops :: "core_op list \<Rightarrow> bool \<times> Value \<times> memory \<Rightarrow> (bool \<times> Value \<times> memory) option" where
  "exec_ops [] s = Some s"
| "exec_ops (op # ops) s =
     (case exec_op op s of None \<Rightarrow> None | Some s' \<Rightarrow> exec_ops ops s')"

fun is_Unlock :: "core_op \<Rightarrow> bool" where
  "is_Unlock (Unlock b) = True"
| "is_Unlock op = False"

section \<open>A concrete slot and concrete requests\<close>

text \<open>
  A slot at address 4096 with generation 0, unlocked, not replaced, length 0 and room
  for 16 payload bytes (\<^verbatim>\<open>size_\<close> is 24 + 16), in a memory that is zero except for three
  request payloads: \<open>hello\<close> at 256, a 34-byte text at 512 and \<open>!\<close> at 1024.
\<close>

definition bytes_of :: "string \<Rightarrow> byte list" where
  "bytes_of s = map (\<lambda>c. of_nat (of_char c)) s"

definition zero_memory :: memory where
  "zero_memory = (\<lambda>a. 0)"

definition scenario_memory :: memory where
  "scenario_memory =
     store_bytes
       (store_bytes
          (store_bytes zero_memory 256 (bytes_of ''hello''))
          512 (bytes_of ''this is too long for sixteen bytes''))
       1024 (bytes_of ''!'')"

definition scenario_slot :: Value where
  "scenario_slot = \<lparr>this = 4096, value_gen_lock = 0, value_size = 40, value_length = 0\<rparr>"

definition upsert_hello :: UpsertContext where
  "upsert_hello = \<lparr>upsert_key = 1, upsert_input = 256, upsert_length = 5\<rparr>"

definition upsert_long :: UpsertContext where
  "upsert_long = \<lparr>upsert_key = 1, upsert_input = 512, upsert_length = 34\<rparr>"

text \<open>
  A merge callback that appends the modification to the old payload: it returns the sum
  of the two lengths and leaves the old bytes followed by the modification bytes at the
  output pointer.
\<close>

definition append_cb :: rmw_callback where
  "append_cb args mem =
     (case args of (old_value, old_length, modification, modification_length, dst) \<Rightarrow>
        (old_length + modification_length,
         load_bytes mem old_value (unat old_length)
           @ load_bytes mem modification (unat modification_length)))"

definition rmw_bang :: RmwContext where
  "rmw_bang = \<lparr>rmw_key = 1, rmw_modification = 1024, rmw_length = 1, rmw_cb = append_cb\<rparr>"





text \<open>
  The scenario: update with \<open>hello\<close> and read, update with the 34-byte text and read,
  read-modify-write appending \<open>!\<close> and read. The result lists, for each of the three
  steps, the flag the update returned and what the read delivered.
\<close>

definition scenario ::
  "((bool \<times> byte list \<times> u64 \<times> Status) \<times> (bool \<times> byte list \<times> u64 \<times> Status)
    \<times> (bool \<times> byte list \<times> u64 \<times> Status)) option" where
  "scenario =
     do {
       (ok1, v1, mem1) \<leftarrow> PutAtomic upsert_hello scenario_slot scenario_memory;
       r1 \<leftarrow> GetAtomic v1;
       (ok2, v2, mem2) \<leftarrow> PutAtomic upsert_long v1 mem1;
       r2 \<leftarrow> GetAtomic v2;
       (ok3, v3, mem3, calls) \<leftarrow> RmwAtomic rmw_bang v2 mem2;
       r3 \<leftarrow> GetAtomic v3;
       Some ((ok1, delivered mem1 r1), (ok2, delivered mem2 r2), (ok3, delivered mem3 r3))
     }"


definition retired_slot :: Value where
  "retired_slot =
     \<lparr>this = 4096, value_gen_lock = 0x8000000000000001, value_size = 40, value_length = 5\<rparr>"

section \<open>A reader next to a writer\<close>

text \<open>
  \<^verbatim>\<open>PutAtomic\<close> cut in two at the point where another thread can see a half-done
  update: \<open>PutAtomic_begin\<close> runs the function up to and including the assignment
  \<^verbatim>\<open>value.length_ = length_\<close> (it ends early, with the result of the call, on a replaced
  or too small slot), and \<open>PutAtomic_finish\<close> runs the rest, \<^verbatim>\<open>memcpy\<close> and
  \<^verbatim>\<open>unlock(false)\<close>.
\<close>

definition PutAtomic_begin ::
  "UpsertContext \<Rightarrow> Value \<Rightarrow> memory \<Rightarrow> ((bool \<times> Value \<times> memory) + (Value \<times> memory)) option" where
  "PutAtomic_begin ctx v mem =
     (case lock_loop (value_gen_lock v) of
        None \<Rightarrow> None
      | Some (was_replaced, control) \<Rightarrow>
          if was_replaced then Some (Inl (False, v\<lparr>value_gen_lock := control\<rparr>, mem))
          else if value_size v < sizeof_Value + upsert_length ctx
          then Some (Inl (False, v\<lparr>value_gen_lock := unlock True control\<rparr>, mem))
          else Some (Inr (v\<lparr>value_gen_lock := control, value_length := upsert_length ctx\<rparr>, mem)))"

definition PutAtomic_finish :: "UpsertContext \<Rightarrow> Value \<Rightarrow> memory \<Rightarrow> bool \<times> Value \<times> memory" where
  "PutAtomic_finish ctx v mem =
     (True, v\<lparr>value_gen_lock := unlock False (value_gen_lock v)\<rparr>,
      memcpy mem (buffer v) (upsert_input ctx) (unat (upsert_length ctx)))"

text \<open>
  A slot as \<^verbatim>\<open>Put\<close> of the five bytes \<open>hello\<close> leaves it (lock word 0, \<^verbatim>\<open>size_\<close> 24 + 5,
  length 5, the bytes in the buffer at 4120), and a request to overwrite it in place with
  the three bytes \<open>HEL\<close> found at 2048.
\<close>

definition stored_slot :: Value where
  "stored_slot = \<lparr>this = 4096, value_gen_lock = 0, value_size = 29, value_length = 5\<rparr>"

definition stored_memory :: memory where
  "stored_memory =
     store_bytes (store_bytes zero_memory 4120 (bytes_of ''hello'')) 2048 (bytes_of ''HEL'')"

definition upsert_HEL :: UpsertContext where
  "upsert_HEL = \<lparr>upsert_key = 1, upsert_input = 2048, upsert_length = 3\<rparr>"

text \<open>
  Two schedules of one reader and one writer on that slot. In the first the reader's
  \<^verbatim>\<open>do ... while\<close> loop ends, then the writer runs the whole of \<^verbatim>\<open>PutAtomic\<close>, then the
  read callback looks at the bytes behind the pointer and length it was handed. In the
  second the writer stops after storing the new length, and the reader runs the whole of
  \<^verbatim>\<open>GetAtomic\<close>, callback included, before the writer goes on. Each yields what the
  callback finds.
\<close>

definition read_overtaken_by_update :: "(byte list \<times> u64 \<times> Status) option" where
  "read_overtaken_by_update =
     do {
       r \<leftarrow> GetAtomic stored_slot;
       (ok, v', mem') \<leftarrow> PutAtomic upsert_HEL stored_slot stored_memory;
       Some (delivered mem' r)
     }"

definition read_inside_update :: "(byte list \<times> u64 \<times> Status) option" where
  "read_inside_update =
     do {
       s \<leftarrow> PutAtomic_begin upsert_HEL stored_slot stored_memory;
       case s of
         Inl done \<Rightarrow> None
       | Inr (v1, mem1) \<Rightarrow>
           do {
             r \<leftarrow> GetAtomic v1;
             Some (delivered mem1 r)
           }
     }"

text \<open>The same read with the writer not running at all, that is, before the update.\<close>

definition read_before_update :: "(byte list \<times> u64 \<times> Status) option" where
  "read_before_update =
     do {
       r \<leftarrow> GetAtomic stored_slot;
       Some (delivered stored_memory r)
     }"

section \<open>Facts about the lock word\<close>

lemma unset_bit_id: "\<not> bit a n \<Longrightarrow> unset_bit n a = a" for a :: u64
  by (rule bit_eqI) (auto simp add: bit_unset_bit_iff)

lemma cleared_flags:
  "\<not> locked (set_replaced False (set_locked False c))"
  "\<not> replaced (set_replaced False (set_locked False c))"
  by (simp_all add: locked_def replaced_def set_replaced_def set_locked_def bit_unset_bit_iff)

lemma try_lock_locked: "locked c \<Longrightarrow> \<not> replaced c \<Longrightarrow> try_lock c = (False, False, c)"
proof -
  assume l: "locked c" and r: "\<not> replaced c"
  from l cleared_flags(1) [of c] have "c \<noteq> set_replaced False (set_locked False c)"
    by metis
  with r show ?thesis
    by (simp add: try_lock_def compare_exchange_strong_def)
qed

lemma try_lock_replaced: "replaced c \<Longrightarrow> try_lock c = (False, True, c)"
proof -
  assume r: "replaced c"
  from r cleared_flags(2) [of c] have "c \<noteq> set_replaced False (set_locked False c)"
    by metis
  with r show ?thesis
    by (simp add: try_lock_def compare_exchange_strong_def)
qed

lemma try_lock_free: "\<not> locked c \<Longrightarrow> \<not> replaced c \<Longrightarrow> try_lock c = (True, False, set_locked True c)"
proof -
  assume l: "\<not> locked c" and r: "\<not> replaced c"
  have "set_replaced False (set_locked False c) = c"
    using l r by (simp add: set_replaced_def set_locked_def locked_def replaced_def unset_bit_id)
  then show ?thesis
    by (simp add: try_lock_def compare_exchange_strong_def)
qed

lemma set_locked_True:
  "locked (set_locked True c)"
  "replaced (set_locked True c) = replaced c"
  "gen_number (set_locked True c) = gen_number c"
  by (simp_all add: locked_def replaced_def gen_number_def set_locked_def bit_set_bit_iff
      take_bit_set_bit_eq)

lemma lock_loop_free: "\<not> locked c \<Longrightarrow> \<not> replaced c \<Longrightarrow> lock_loop c = Some (False, set_locked True c)"
  by (subst lock_loop.simps) (simp add: try_lock_free)

lemma lock_loop_replaced: "replaced c \<Longrightarrow> lock_loop c = Some (True, c)"
  by (subst lock_loop.simps) (simp add: try_lock_replaced)

lemma lock_loop_Some:
  assumes "lock_loop c = Some r"
  shows "\<not> locked c \<or> replaced c"
proof (rule lock_loop.raw_induct [where P = "\<lambda>c r. \<not> locked c \<or> replaced c", OF _ assms])
  fix f :: "u64 \<Rightarrow> (bool \<times> u64) option" and c r
  assume IH: "\<And>x y. f x = Some y \<Longrightarrow> \<not> locked x \<or> replaced x"
    and step: "(case try_lock c of
        (ok, was_replaced, control') \<Rightarrow>
          if \<not> ok \<and> \<not> was_replaced then f control'
          else Some (was_replaced, control')) = Some r"
  show "\<not> locked c \<or> replaced c"
  proof (rule ccontr)
    assume "\<not> (\<not> locked c \<or> replaced c)"
    then have held: "locked c" "\<not> replaced c" by simp_all
    with step have "f c = Some r"
      by (simp add: try_lock_locked)
    from IH [OF this] held show False by simp
  qed
qed

lemma lock_loop_locked: "locked c \<Longrightarrow> \<not> replaced c \<Longrightarrow> lock_loop c = None"
  using lock_loop_Some [of c] by (cases "lock_loop c") auto

lemma GetAtomic_eq: "GetAtomic v = Some (buffer v, value_length v, Ok)"
  by (subst GetAtomic.simps) simp

lemma load_bytes_memcpy: "load_bytes (memcpy mem dst src n) dst n = load_bytes mem src n"
  by (rule nth_equalityI) (simp_all add: load_bytes_def memcpy_def)

lemma unat_gen_number: "unat (gen_number c) = unat c mod 2 ^ 62"
  by (simp only: gen_number_def unsigned_take_bit_eq) (simp only: take_bit_eq_mod)

lemma unat_unlock:
  "unat (unlock b c) = (unat c + (if b then 3 * 2 ^ 62 + 1 else 2 ^ 62 + 1)) mod 2 ^ 64"
proof (cases b)
  case True
  have "unlock True c = c + 0xC000000000000001"
    by (simp add: unlock_def)
  then have "unat (unlock True c) = unat (c + 0xC000000000000001)"
    by (simp only:)
  also have "\<dots> = (unat c + unat (0xC000000000000001 :: u64)) mod 2 ^ LENGTH(64)"
    by (simp only: unat_word_ariths(1))
  also have "\<dots> = (unat c + (3 * 2 ^ 62 + 1)) mod 2 ^ 64"
    by simp
  finally show ?thesis
    using True by simp
next
  case False
  have "unlock False c = c + 0x4000000000000001"
    by (simp add: unlock_def)
  then have "unat (unlock False c) = unat (c + 0x4000000000000001)"
    by (simp only:)
  also have "\<dots> = (unat c + unat (0x4000000000000001 :: u64)) mod 2 ^ LENGTH(64)"
    by (simp only: unat_word_ariths(1))
  also have "\<dots> = (unat c + (2 ^ 62 + 1)) mod 2 ^ 64"
    by simp
  finally show ?thesis
    using False by simp
qed

lemma gen_number_unlock_nat:
  "unat (gen_number (unlock b c)) = (unat (gen_number c) + 1) mod 2 ^ 62"
proof -
  have dvd: "(2::nat) ^ 62 dvd 2 ^ 64"
    by (simp add: le_imp_power_dvd)
  have "unat (gen_number (unlock b c)) = (unat c + (if b then 3 * 2 ^ 62 + 1 else 2 ^ 62 + 1)) mod 2 ^ 62"
    unfolding unat_gen_number unat_unlock by (rule mod_mod_cancel [OF dvd])
  also have "\<dots> = (unat c + 1) mod 2 ^ 62"
  proof (cases b)
    case True
    have "(unat c + 1 + 3 * 2 ^ 62) mod 2 ^ 62 = (unat c + 1) mod 2 ^ 62"
      by (rule mod_mult_self1)
    with True show ?thesis by (simp add: add.commute add.left_commute)
  next
    case False
    have "(unat c + 1 + 1 * 2 ^ 62) mod 2 ^ 62 = (unat c + 1) mod 2 ^ 62"
      by (rule mod_mult_self1)
    with False show ?thesis by (simp add: add.commute add.left_commute)
  qed
  also have "\<dots> = (unat c mod 2 ^ 62 + 1) mod 2 ^ 62"
    by (simp add: mod_simps)
  finally show ?thesis
    by (simp add: unat_gen_number)
qed

lemma uint_sizeof_plus:
  "uint n + 24 < 2 ^ 64 \<Longrightarrow> uint (sizeof_Value + n) = uint n + 24"
  by (simp add: sizeof_Value_def uint_word_ariths)

lemma fits_no_wrap: "uint n \<le> capacity v \<Longrightarrow> uint n + 24 < 2 ^ 64"
  using uint_lt2p [of "value_size v"] by (simp add: capacity_def sizeof_Value_def)

lemma size_check_fits: "uint n \<le> capacity v \<Longrightarrow> \<not> value_size v < sizeof_Value + n"
  using uint_sizeof_plus [OF fits_no_wrap, of n v]
  by (simp add: word_less_def capacity_def sizeof_Value_def)

lemma size_check_too_small:
  "capacity v < uint n \<Longrightarrow> uint n + uint sizeof_Value < 2 ^ 64 \<Longrightarrow>
   value_size v < sizeof_Value + n"
  using uint_sizeof_plus [of n]
  by (simp add: word_less_def capacity_def sizeof_Value_def)

lemma PutAtomic_replaced:
  "replaced (value_gen_lock v) \<Longrightarrow> PutAtomic ctx v mem = Some (False, v, mem)"
  by (simp add: PutAtomic_def lock_loop_replaced)

lemma PutAtomic_free:
  "\<not> locked (value_gen_lock v) \<Longrightarrow> \<not> replaced (value_gen_lock v) \<Longrightarrow>
   PutAtomic ctx v mem =
     (if value_size v < sizeof_Value + upsert_length ctx
      then Some (False, v\<lparr>value_gen_lock := unlock True (set_locked True (value_gen_lock v))\<rparr>, mem)
      else Some (True,
             v\<lparr>value_length := upsert_length ctx,
               value_gen_lock := unlock False (set_locked True (value_gen_lock v))\<rparr>,
             memcpy mem (buffer v) (upsert_input ctx) (unat (upsert_length ctx))))"
  by (simp add: PutAtomic_def lock_loop_free)




lemma RmwAtomic_replaced:
  "replaced (value_gen_lock v) \<Longrightarrow> RmwAtomic ctx v mem = Some (False, v, mem, [])"
  by (simp add: RmwAtomic_def lock_loop_replaced)



lemma exec_op_replaced:
  "replaced (value_gen_lock v) \<Longrightarrow>
   exec_op op (False, v, mem) = (if is_Unlock op then None else Some (False, v, mem))"
  by (cases op) (simp_all add: try_lock_replaced PutAtomic_replaced RmwAtomic_replaced)

lemma exec_ops_replaced:
  "replaced (value_gen_lock v) \<Longrightarrow>
   exec_ops ops (False, v, mem) = (if list_ex is_Unlock ops then None else Some (False, v, mem))"
  by (induction ops) (simp_all add: exec_op_replaced)

lemma scenario_memory_hello: "load_bytes scenario_memory 256 5 = bytes_of ''hello''"
  by (simp add: load_bytes_def scenario_memory_def store_bytes_def zero_memory_def bytes_of_def
      upt_rec_numeral)

lemma scenario_slot_free:
  "\<not> locked (value_gen_lock scenario_slot)" "\<not> replaced (value_gen_lock scenario_slot)"
  by (simp_all add: scenario_slot_def locked_def replaced_def)

lemma scenario_slot_capacity: "capacity scenario_slot = 16"
  by (simp add: capacity_def scenario_slot_def sizeof_Value_def)

lemma scenario_slot_buffer: "buffer scenario_slot = 4120"
  by (simp add: buffer_def scenario_slot_def sizeof_Value_def)

lemma scenario_eval:
  "scenario = Some ((True, bytes_of ''hello'', 5, Ok),
                    (False, bytes_of ''hello'', 5, Ok),
                    (False, bytes_of ''hello'', 5, Ok))"
proof -
  define v1 where "v1 = scenario_slot\<lparr>value_length := 5, value_gen_lock := 0x8000000000000001\<rparr>"
  define mem1 where "mem1 = memcpy scenario_memory 4120 256 5"
  have step1: "PutAtomic upsert_hello scenario_slot scenario_memory = Some (True, v1, mem1)"
    unfolding v1_def mem1_def
    by (simp add: PutAtomic_free scenario_slot_free scenario_slot_buffer)
      (simp add: scenario_slot_def upsert_hello_def sizeof_Value_def unlock_def set_locked_def)
  have retired: "replaced (value_gen_lock v1)"
    by (simp add: v1_def replaced_def)
  have read1: "delivered mem1 (buffer v1, value_length v1, Ok) = (bytes_of ''hello'', 5, Ok)"
    using load_bytes_memcpy [of scenario_memory 4120 256 5]
    by (simp add: delivered_def v1_def mem1_def scenario_slot_buffer [unfolded buffer_def] buffer_def
        scenario_memory_hello)
  show ?thesis
    unfolding scenario_def
    by (simp add: step1 GetAtomic_eq PutAtomic_replaced [OF retired]
        RmwAtomic_replaced [OF retired] read1)
qed

lemma PutAtomic_split:
  "PutAtomic ctx v mem =
     (case PutAtomic_begin ctx v mem of
        None \<Rightarrow> None
      | Some (Inl r) \<Rightarrow> Some r
      | Some (Inr (v1, mem1)) \<Rightarrow> Some (PutAtomic_finish ctx v1 mem1))"
  by (simp add: PutAtomic_def PutAtomic_begin_def PutAtomic_finish_def buffer_def
      split: option.splits prod.splits)


lemma stored_slot_free:
  "\<not> locked (value_gen_lock stored_slot)" "\<not> replaced (value_gen_lock stored_slot)"
  by (simp_all add: stored_slot_def locked_def replaced_def)

lemma stored_slot_fits: "\<not> value_size stored_slot < sizeof_Value + upsert_length upsert_HEL"
  by (simp add: stored_slot_def sizeof_Value_def upsert_HEL_def)

lemma stored_slot_buffer: "buffer stored_slot = 4120"
  by (simp add: buffer_def stored_slot_def sizeof_Value_def)

section \<open>The claims\<close>

text \<open>
  C1. The claim: from a state that holds the locked bit, \<^verbatim>\<open>unlock(false)\<close> clears the
  locked bit, adds 1 to the generation and leaves the replaced bit false, and
  \<^verbatim>\<open>unlock(true)\<close> clears the locked bit, sets the replaced bit and adds 1 to the
  generation. The code has the two branches the other way round: its \<^verbatim>\<open>if(replaced)\<close>
  branch is the one commented "Just turn off locked bit and increase gen number". At the
  locked state of generation 0 (control word \<open>2 ^ 62\<close>), \<^verbatim>\<open>unlock(false)\<close> yields
  \<open>2 ^ 63 + 1\<close>, which has the replaced bit set, and \<^verbatim>\<open>unlock(true)\<close> yields \<open>1\<close>,
  which has it clear.
\<close>

theorem unlock_branches_at_locked_generation_0:
  "locked 0x4000000000000000 \<and> \<not> replaced 0x4000000000000000
   \<and> gen_number 0x4000000000000000 = 0
   \<and> unlock False 0x4000000000000000 = 0x8000000000000001
   \<and> replaced (unlock False 0x4000000000000000)
   \<and> \<not> locked (unlock False 0x4000000000000000)
   \<and> gen_number (unlock False 0x4000000000000000) = 1
   \<and> unlock True 0x4000000000000000 = 1
   \<and> \<not> replaced (unlock True 0x4000000000000000)
   \<and> \<not> locked (unlock True 0x4000000000000000)
   \<and> gen_number (unlock True 0x4000000000000000) = 1"
  by (simp add: unlock_def locked_def replaced_def gen_number_def)

text \<open>
  C2. One call of \<^verbatim>\<open>try_lock\<close>, on any control word. If the locked bit is set and the
  replaced bit is not, it returns false with \<^verbatim>\<open>replaced = false\<close> and the word is
  unchanged. If the replaced bit is set, it returns false with \<^verbatim>\<open>replaced = true\<close> and
  the word is unchanged. Otherwise it returns true, and its compare-and-swap, which
  expected the word as loaded, has stored the same word with the locked bit set: same
  generation, replaced bit still clear.
\<close>

theorem try_lock_single_call:
  "(locked c \<and> \<not> replaced c \<longrightarrow> try_lock c = (False, False, c))
   \<and> (replaced c \<longrightarrow> try_lock c = (False, True, c))
   \<and> (\<not> locked c \<and> \<not> replaced c \<longrightarrow>
        try_lock c = (True, False, set_locked True c)
        \<and> compare_exchange_strong c c (set_locked True c) = (True, set_locked True c, c)
        \<and> locked (set_locked True c)
        \<and> \<not> replaced (set_locked True c)
        \<and> gen_number (set_locked True c) = gen_number c)"
  by (simp add: try_lock_locked try_lock_replaced try_lock_free set_locked_True
      compare_exchange_strong_def)

theorem try_lock_single_call_witness:
  "locked 0x4000000000000003 \<and> \<not> replaced 0x4000000000000003
   \<and> try_lock 0x4000000000000003 = (False, False, 0x4000000000000003)
   \<and> replaced 0x8000000000000005
   \<and> try_lock 0x8000000000000005 = (False, True, 0x8000000000000005)
   \<and> \<not> locked 7 \<and> \<not> replaced 7
   \<and> try_lock 7 = (True, False, 0x4000000000000007)
   \<and> gen_number 0x4000000000000007 = gen_number 7"
  using try_lock_single_call [of "0x4000000000000003"]
    try_lock_single_call [of "0x8000000000000005"]
    try_lock_single_call [of 7]
  by (simp add: locked_def replaced_def set_locked_def)

text \<open>
  C3, amended. On a fresh slot with capacity 16 and length 0, run in sequence:
  \<^verbatim>\<open>PutAtomic\<close> of \<open>hello\<close> returns true and a read delivers \<open>hello\<close> with length 5;
  \<^verbatim>\<open>PutAtomic\<close> of a 34-byte payload returns false and a read still delivers \<open>hello\<close>
  with length 5; \<^verbatim>\<open>RmwAtomic\<close> with a callback appending \<open>!\<close> returns false as well,
  and a read still delivers \<open>hello\<close> with length 5. The claim has the third step succeed
  and the read deliver \<open>hello!\<close> with length 6; but by then the slot is retired, and a
  retired slot accepts no update in place.
\<close>

theorem scenario_result:
  "scenario = Some ((True, bytes_of ''hello'', 5, Ok),
                    (False, bytes_of ''hello'', 5, Ok),
                    (False, bytes_of ''hello'', 5, Ok))"
  by (rule scenario_eval)

theorem scenario_rmw_step_counterexample:
  "scenario \<noteq> Some ((True, bytes_of ''hello'', 5, Ok),
                     (False, bytes_of ''hello'', 5, Ok),
                     (True, bytes_of ''hello!'', 6, Ok))
   \<and> map_option (snd \<circ> snd) scenario = Some (False, bytes_of ''hello'', 5, Ok)"
  by (simp add: scenario_eval)

text \<open>
  C4. For every slot that is neither locked nor replaced and every request whose length
  is at most the capacity of the slot, \<^verbatim>\<open>PutAtomic\<close> returns true, and a \<^verbatim>\<open>GetAtomic\<close>
  run right after it delivers the length of the request and exactly the bytes the request
  pointed to. (The bytes are those in memory before the call; \<^verbatim>\<open>memcpy\<close> leaves the
  result open when source and destination overlap.)
\<close>

theorem PutAtomic_round_trip:
  assumes "\<not> locked (value_gen_lock v)" and "\<not> replaced (value_gen_lock v)"
    and "uint (upsert_length ctx) \<le> capacity v"
  shows "PutAtomic_then_GetAtomic ctx v mem =
    Some (True, load_bytes mem (upsert_input ctx) (unat (upsert_length ctx)),
          upsert_length ctx, Ok)"
  using assms
  by (simp add: PutAtomic_then_GetAtomic_def PutAtomic_free size_check_fits GetAtomic_eq
      delivered_def buffer_def load_bytes_memcpy)

theorem PutAtomic_round_trip_witness:
  "\<not> locked (value_gen_lock scenario_slot) \<and> \<not> replaced (value_gen_lock scenario_slot)
   \<and> uint (upsert_length upsert_hello) \<le> capacity scenario_slot
   \<and> PutAtomic_then_GetAtomic upsert_hello scenario_slot scenario_memory =
       Some (True, bytes_of ''hello'', 5, Ok)"
proof -
  have fits: "uint (upsert_length upsert_hello) \<le> capacity scenario_slot"
    by (simp add: scenario_slot_capacity upsert_hello_def)
  show ?thesis
    using fits scenario_slot_free
      PutAtomic_round_trip [OF scenario_slot_free fits, of scenario_memory]
    by (simp add: upsert_hello_def scenario_memory_hello)
qed

text \<open>
  C5. For every slot that is neither locked nor replaced and every request whose payload
  is longer than the capacity of the slot, \<^verbatim>\<open>PutAtomic\<close> returns false, the memory (so
  the buffer) is what it was, and of the header only the lock word has changed: length
  and size are what they were. The payload is in memory: its \<^verbatim>\<open>length_\<close> bytes, the 24
  bytes of the header and the byte at address \<^verbatim>\<open>NULL\<close> are distinct bytes of a 64-bit
  address space, so \<^verbatim>\<open>sizeof(Value) + length_\<close> is below \<open>2 ^ 64\<close>.
\<close>

theorem PutAtomic_too_long:
  assumes "\<not> locked (value_gen_lock v)" and "\<not> replaced (value_gen_lock v)"
    and "capacity v < uint (upsert_length ctx)"
    and "uint (upsert_length ctx) + uint sizeof_Value < 2 ^ 64"
  shows "PutAtomic ctx v mem =
    Some (False, v\<lparr>value_gen_lock := unlock True (set_locked True (value_gen_lock v))\<rparr>, mem)"
  using assms by (simp add: PutAtomic_free size_check_too_small)

theorem PutAtomic_too_long_witness:
  "\<not> locked (value_gen_lock scenario_slot) \<and> \<not> replaced (value_gen_lock scenario_slot)
   \<and> capacity scenario_slot < uint (upsert_length upsert_long)
   \<and> uint (upsert_length upsert_long) + uint sizeof_Value < 2 ^ 64
   \<and> PutAtomic upsert_long scenario_slot scenario_memory =
       Some (False, scenario_slot\<lparr>value_gen_lock := 1\<rparr>, scenario_memory)"
proof -
  have long: "capacity scenario_slot < uint (upsert_length upsert_long)"
    by (simp add: scenario_slot_capacity upsert_long_def)
  have no_wrap: "uint (upsert_length upsert_long) + uint sizeof_Value < 2 ^ 64"
    by (simp add: upsert_long_def sizeof_Value_def)
  have word: "unlock True (set_locked True (value_gen_lock scenario_slot)) = 1"
    by (simp add: scenario_slot_def unlock_def set_locked_def)
  show ?thesis
    using long no_wrap scenario_slot_free
      PutAtomic_too_long [OF scenario_slot_free long no_wrap, of scenario_memory]
    by (simp add: word)
qed




text \<open>
  C7. Retirement is terminal. On every slot whose lock word has the replaced bit set,
  \<^verbatim>\<open>try_lock\<close> fails, reports \<^verbatim>\<open>replaced = true\<close> and leaves the word as it is;
  \<^verbatim>\<open>PutAtomic\<close> and \<^verbatim>\<open>RmwAtomic\<close> return false, call no callback and leave header and
  memory as they are. So every run of a client that starts on such a slot without holding
  its lock never acquires the lock, hence never gets to call \<^verbatim>\<open>unlock\<close>, and ends in the
  very same state, replaced bit set.
\<close>

theorem retirement_is_terminal:
  assumes "replaced (value_gen_lock v)"
  shows "try_lock (value_gen_lock v) = (False, True, value_gen_lock v)
    \<and> PutAtomic upsert v mem = Some (False, v, mem)
    \<and> RmwAtomic rmw v mem = Some (False, v, mem, [])
    \<and> exec_ops ops (False, v, mem) =
        (if list_ex is_Unlock ops then None else Some (False, v, mem))"
  using assms
  by (simp add: try_lock_replaced PutAtomic_replaced RmwAtomic_replaced exec_ops_replaced)

theorem retirement_is_terminal_witness:
  "replaced (value_gen_lock retired_slot)
   \<and> try_lock (value_gen_lock retired_slot) = (False, True, 0x8000000000000001)
   \<and> PutAtomic upsert_hello retired_slot scenario_memory
       = Some (False, retired_slot, scenario_memory)
   \<and> RmwAtomic rmw_bang retired_slot scenario_memory
       = Some (False, retired_slot, scenario_memory, [])
   \<and> exec_ops [TryLock, Put upsert_hello, Rmw rmw_bang, Put upsert_long, TryLock]
        (False, retired_slot, scenario_memory)
       = Some (False, retired_slot, scenario_memory)"
proof -
  have r: "replaced (value_gen_lock retired_slot)"
    by (simp add: retired_slot_def replaced_def)
  have word: "value_gen_lock retired_slot = 0x8000000000000001"
    by (simp add: retired_slot_def)
  have no_unlock:
    "\<not> list_ex is_Unlock [TryLock, Put upsert_hello, Rmw rmw_bang, Put upsert_long, TryLock]"
    by simp
  show ?thesis
    using r retirement_is_terminal [OF r, of upsert_hello scenario_memory rmw_bang
        "[TryLock, Put upsert_hello, Rmw rmw_bang, Put upsert_long, TryLock]"]
    by (simp only: word no_unlock if_False simp_thms)
qed

text \<open>
  C8. From a state that holds the locked bit, \<^verbatim>\<open>unlock\<close> with either argument replaces
  the generation by its successor modulo \<open>2 ^ 62\<close>, the width of the field; so below the
  last generation \<open>2 ^ 62 - 1\<close> the generation grows by exactly 1.
\<close>

theorem unlock_generation_successor:
  assumes "locked c"
  shows "unat (gen_number (unlock b c)) = (unat (gen_number c) + 1) mod 2 ^ 62
    \<and> (unat (gen_number c) < 2 ^ 62 - 1 \<longrightarrow>
         unat (gen_number (unlock b c)) = unat (gen_number c) + 1)"
  by (simp add: gen_number_unlock_nat)

theorem unlock_generation_successor_witness:
  "locked 0x4000000000000005
   \<and> unat (gen_number 0x4000000000000005) = 5
   \<and> unat (gen_number (unlock True 0x4000000000000005)) = 6
   \<and> unat (gen_number (unlock False 0x4000000000000005)) = 6
   \<and> locked 0x7FFFFFFFFFFFFFFF
   \<and> unat (gen_number 0x7FFFFFFFFFFFFFFF) = 2 ^ 62 - 1
   \<and> unat (gen_number (unlock True 0x7FFFFFFFFFFFFFFF)) = 0
   \<and> unat (gen_number (unlock False 0x7FFFFFFFFFFFFFFF)) = 0"
proof -
  have l5: "locked 0x4000000000000005" and l7: "locked 0x7FFFFFFFFFFFFFFF"
    by (simp_all add: locked_def)
  have g5: "unat (gen_number 0x4000000000000005) = 5"
    and g7: "unat (gen_number 0x7FFFFFFFFFFFFFFF) = 2 ^ 62 - 1"
    by (simp_all add: gen_number_def)
  show ?thesis
    using l5 l7 g5 g7
      unlock_generation_successor [OF l5, of True]
      unlock_generation_successor [OF l5, of False]
      unlock_generation_successor [OF l7, of True]
      unlock_generation_successor [OF l7, of False]
    by simp
qed

text \<open>
  C9. The claim: whatever the interleaving of one \<^verbatim>\<open>PutAtomic\<close> with \<^verbatim>\<open>GetAtomic\<close>
  readers, a read delivers either the bytes and length from before the update or those
  from after it. On a slot holding \<open>hello\<close> with length 5 and an update to \<open>HEL\<close> with
  length 3 these are \<open>hello\<close>, 5 and \<open>HEL\<close>, 3. The code delivers neither in two
  schedules. When the update runs between the end of the reader's loop and the callback's
  look at the bytes, the callback finds \<open>HELlo\<close> with length 5: it is handed a pointer,
  not a copy taken inside the loop. When the reader runs after the writer has stored the
  new length and before it copies the bytes, it delivers \<open>hel\<close> with length 3: the loop
  compares generation numbers only, \<^verbatim>\<open>try_lock\<close> leaves the generation as it is, and
  the locked bit is not looked at.
\<close>

theorem GetAtomic_torn_reads:
  "read_before_update = Some (bytes_of ''hello'', 5, Ok)
   \<and> PutAtomic_then_GetAtomic upsert_HEL stored_slot stored_memory
       = Some (True, bytes_of ''HEL'', 3, Ok)
   \<and> read_overtaken_by_update = Some (bytes_of ''HELlo'', 5, Ok)
   \<and> read_inside_update = Some (bytes_of ''hel'', 3, Ok)"
proof -
  have mem5: "load_bytes stored_memory 4120 5 = bytes_of ''hello''"
    and mem3: "load_bytes stored_memory 4120 3 = bytes_of ''hel''"
    and new3: "load_bytes (memcpy stored_memory 4120 2048 3) 4120 3 = bytes_of ''HEL''"
    and new5: "load_bytes (memcpy stored_memory 4120 2048 3) 4120 5 = bytes_of ''HELlo''"
    by (simp_all add: load_bytes_def memcpy_def stored_memory_def store_bytes_def zero_memory_def
        bytes_of_def upt_rec_numeral)
  have put: "PutAtomic upsert_HEL stored_slot stored_memory =
      Some (True,
        stored_slot\<lparr>value_length := 3,
          value_gen_lock := unlock False (set_locked True (value_gen_lock stored_slot))\<rparr>,
        memcpy stored_memory 4120 2048 3)"
    using stored_slot_fits
    by (simp add: PutAtomic_free stored_slot_free stored_slot_buffer)
      (simp add: upsert_HEL_def)
  have half: "PutAtomic_begin upsert_HEL stored_slot stored_memory =
      Some (Inr (stored_slot\<lparr>value_gen_lock := set_locked True (value_gen_lock stored_slot),
                   value_length := 3\<rparr>, stored_memory))"
    using stored_slot_fits
    by (simp add: PutAtomic_begin_def lock_loop_free stored_slot_free)
      (simp add: upsert_HEL_def)
  have len: "value_length stored_slot = 5"
    by (simp add: stored_slot_def)
  have before: "read_before_update = Some (bytes_of ''hello'', 5, Ok)"
    by (simp add: read_before_update_def GetAtomic_eq delivered_def stored_slot_buffer len mem5)
  have after: "PutAtomic_then_GetAtomic upsert_HEL stored_slot stored_memory
      = Some (True, bytes_of ''HEL'', 3, Ok)"
    using stored_slot_buffer
    by (simp add: PutAtomic_then_GetAtomic_def put GetAtomic_eq delivered_def buffer_def new3)
  have overtaken: "read_overtaken_by_update = Some (bytes_of ''HELlo'', 5, Ok)"
    by (simp add: read_overtaken_by_update_def put GetAtomic_eq delivered_def stored_slot_buffer
        len new5)
  have inside: "read_inside_update = Some (bytes_of ''hel'', 3, Ok)"
    using stored_slot_buffer
    by (simp add: read_inside_update_def half GetAtomic_eq delivered_def buffer_def mem3)
  from before after overtaken inside show ?thesis by simp
qed



end
